theory Spec2Isabelle
  imports Main "HOL-Library.Word"
begin

section \<open>The C library functions used by \<^verbatim>\<open>parse_device_identifier\<close>\<close>

text \<open>
  A C string is a \<open>string\<close>: the characters before the terminating NUL. A \<^verbatim>\<open>char*\<close>
  into it is the rest of the string from that position on, so \<^verbatim>\<open>*p\<close> is the head of
  the rest and NUL at the end, and \<^verbatim>\<open>p + 1\<close> is its tail.
\<close>

definition deref :: "string \<Rightarrow> char" where
  "deref p = (case p of [] \<Rightarrow> CHR 0x00 | c # _ \<Rightarrow> c)"

text \<open>
  \<^verbatim>\<open>strtol(nptr, &endptr, 0)\<close> belongs to the C library, not to this repository; it is
  written out here after ISO C (7.22.1.4) for the "C" locale, which the program never
  leaves: white space is skipped, one sign is read, a leading \<^verbatim>\<open>0x\<close> or \<^verbatim>\<open>0X\<close> that a
  hexadecimal digit follows selects base 16, another leading \<^verbatim>\<open>0\<close> base 8, anything
  else base 10; the longest run of digits of that base is converted. When there is no
  digit, the result is 0 and \<^verbatim>\<open>endptr\<close> is \<^verbatim>\<open>nptr\<close> itself. A value out of the range of
  \<^verbatim>\<open>long\<close> is replaced by \<^verbatim>\<open>LONG_MAX\<close> or \<^verbatim>\<open>LONG_MIN\<close>. \<^verbatim>\<open>long\<close> has 64 bits and
  \<^verbatim>\<open>int\<close> 32 bits (LP64, the data model of 64-bit Linux).
\<close>

definition isspace :: "char \<Rightarrow> bool" where
  "isspace c \<longleftrightarrow>
     c = CHR '' '' \<or> c = CHR 0x09 \<or> c = CHR 0x0A \<or> c = CHR 0x0B \<or> c = CHR 0x0C \<or> c = CHR 0x0D"

definition digit_value :: "char \<Rightarrow> nat option" where
  "digit_value c =
     (let n = (of_char c :: nat) in
      if 48 \<le> n \<and> n \<le> 57 then Some (n - 48)
      else if 97 \<le> n \<and> n \<le> 122 then Some (n - 87)
      else if 65 \<le> n \<and> n \<le> 90 then Some (n - 55)
      else None)"

definition is_digit :: "nat \<Rightarrow> char \<Rightarrow> bool" where
  "is_digit base c = (case digit_value c of None \<Rightarrow> False | Some d \<Rightarrow> d < base)"

fun convert_digits :: "nat \<Rightarrow> int \<Rightarrow> string \<Rightarrow> int \<times> string" where
  "convert_digits base acc [] = (acc, [])"
| "convert_digits base acc (c # cs) =
     (case digit_value c of
        None \<Rightarrow> (acc, c # cs)
      | Some d \<Rightarrow>
          if d < base then convert_digits base (acc * int base + int d) cs
          else (acc, c # cs))"

definition LONG_MAX :: int where
  "LONG_MAX = 2 ^ 63 - 1"

definition LONG_MIN :: int where
  "LONG_MIN = - (2 ^ 63)"

definition clamp_long :: "int \<Rightarrow> int" where
  "clamp_long v = (if v < LONG_MIN then LONG_MIN else if LONG_MAX < v then LONG_MAX else v)"

definition read_sign :: "string \<Rightarrow> bool \<times> string" where
  "read_sign s =
     (case s of
        [] \<Rightarrow> (False, s)
      | c # cs \<Rightarrow>
          if c = CHR ''-'' then (True, cs)
          else if c = CHR ''+'' then (False, cs)
          else (False, s))"

definition read_base :: "string \<Rightarrow> nat \<times> string" where
  "read_base s =
     (case s of
        z # x # h # cs \<Rightarrow>
          if z = CHR ''0'' \<and> (x = CHR ''x'' \<or> x = CHR ''X'') \<and> is_digit 16 h then (16, h # cs)
          else if z = CHR ''0'' then (8, s)
          else (10, s)
      | z # _ \<Rightarrow> if z = CHR ''0'' then (8, s) else (10, s)
      | [] \<Rightarrow> (10, s))"

definition strtol :: "string \<Rightarrow> int \<times> string" where
  "strtol nptr =
     (let (negative, s) = read_sign (dropWhile isspace nptr);
          (base, digits) = read_base s
      in if is_digit base (deref digits) then
           (let (acc, endptr) = convert_digits base 0 digits
            in (clamp_long (if negative then - acc else acc), endptr))
         else (0, nptr))"

text \<open>
  The cast \<^verbatim>\<open>(int) tmp\<close> of a \<^verbatim>\<open>long\<close>: the value modulo \<open>2 ^ 32\<close>, read as two's
  complement (what GCC and Clang define for an out-of-range conversion).
\<close>

definition int_of_long :: "int \<Rightarrow> int" where
  "int_of_long v = sint (word_of_int v :: 32 word)"

section \<open>\<^verbatim>\<open>parse_device_identifier\<close>\<close>

text \<open>
  The out-parameters \<^verbatim>\<open>*bus\<close> and \<^verbatim>\<open>*device\<close> are passed in with the values they hold
  at the call and returned with the values they hold at the return, next to the
  function's \<^verbatim>\<open>bool\<close>.
\<close>

definition parse_device_identifier :: "int \<Rightarrow> int \<Rightarrow> string \<Rightarrow> bool \<times> int \<times> int" where
  "parse_device_identifier bus device identifier =
     (let (tmp, endptr) = strtol identifier in
      if deref endptr \<noteq> CHR '':'' then (False, bus, device)
      else
        (let bus' = int_of_long tmp;
             (tmp', endptr') = strtol (tl endptr)
         in if deref endptr' \<noteq> CHR 0x00 then (False, bus', device)
            else (True, bus', int_of_long tmp')))"

section \<open>Formatted output\<close>

text \<open>
  The conversions of \<^verbatim>\<open>fprintf\<close> that the program uses: \<^verbatim>\<open>%d\<close> and \<^verbatim>\<open>%zd\<close> print a
  signed decimal number, \<^verbatim>\<open>%03d\<close> pads it with zeros after the sign to three
  characters, \<^verbatim>\<open>%s\<close> prints a string.
\<close>

definition digit_char :: "nat \<Rightarrow> char" where
  "digit_char d = ''0123456789'' ! d"

fun decimal :: "nat \<Rightarrow> string" where
  "decimal n =
     (if n < 10 then [digit_char n] else decimal (n div 10) @ [digit_char (n mod 10)])"

declare decimal.simps [simp del]

definition fmt_d :: "int \<Rightarrow> string" where
  "fmt_d i = (if i < 0 then CHR ''-'' # decimal (nat (- i)) else decimal (nat i))"

definition zero_pad :: "nat \<Rightarrow> string \<Rightarrow> string" where
  "zero_pad width s = replicate (width - length s) (CHR ''0'') @ s"

definition fmt_03d :: "int \<Rightarrow> string" where
  "fmt_03d i =
     (if i < 0 then CHR ''-'' # zero_pad 2 (decimal (nat (- i))) else zero_pad 3 (decimal (nat i)))"

abbreviation (input) newline :: string where
  "newline \<equiv> [CHR 0x0A]"

section \<open>The libraries as the program sees them\<close>

text \<open>
  \<^verbatim>\<open>libusb_get_bus_number\<close> and \<^verbatim>\<open>libusb_get_device_address\<close> return a \<^verbatim>\<open>uint8_t\<close>
  read from the device entry.
\<close>

record libusb_device =
  bus_number :: "8 word"
  device_address :: "8 word"

text \<open>The three string indices of \<^verbatim>\<open>struct libusb_device_descriptor\<close> that are read.\<close>

datatype desc_index = iManufacturer | iProduct | iSerialNumber

text \<open>
  Every call into libusb and libftdi that acts on the bus or on the device, with its
  arguments (where the program chooses them) and the value it returned. The getters
  \<^verbatim>\<open>libusb_get_bus_number\<close>, \<^verbatim>\<open>libusb_get_device_address\<close>, \<^verbatim>\<open>libusb_get_device\<close> and
  \<^verbatim>\<open>libusb_strerror\<close> only read what is already there; they are functions of the
  model and leave no entry.
\<close>

datatype library_call =
    Libusb_init int
  | Libusb_get_device_list int "libusb_device list"
  | Ftdi_init int
  | Ftdi_usb_open_dev libusb_device int
  | Libusb_get_device_descriptor int
  | Libusb_get_string_descriptor_ascii desc_index int
  | Ftdi_eeprom_initdefaults string string string int
  | Ftdi_eeprom_build int
  | Ftdi_write_eeprom int
  | Ftdi_deinit

text \<open>What a run does, in order: a \<^verbatim>\<open>fprintf\<close> to one of the two streams, or a call.\<close>

datatype event = Stdout string | Stderr string | Call library_call

text \<open>
  What the libraries answer in one run. \<open>getopt_long\<close> lists the values that the
  successive calls of \<^verbatim>\<open>getopt_long\<close> return before \<open>-1\<close>, each with \<^verbatim>\<open>optarg\<close> as
  that call leaves it (\<open>None\<close> for \<^verbatim>\<open>NULL\<close>); \<open>optind\<close> is the value of \<^verbatim>\<open>optind\<close> once
  \<open>-1\<close> has been returned: the index of the first non-option of \<^verbatim>\<open>argv\<close>. The
  program passes \<^verbatim>\<open>&optind\<close> as the \<^verbatim>\<open>longindex\<close> pointer as well; the value it reads
  at line 100 is the one found in \<^verbatim>\<open>optind\<close> after the loop, which is this one.
  What \<^verbatim>\<open>getopt_long\<close> itself writes about an option it rejects is the library's
  output and no event of the trace. \<open>libusb_get_device_list\<close> is the returned count
  and the list it stores; \<open>libusb_get_string_descriptor_ascii\<close> is the returned count
  and the string left in the buffer.
\<close>

record environment =
  getopt_long :: "(char \<times> string option) list"
  optind :: nat
  libusb_init :: int
  libusb_get_device_list :: "int \<times> libusb_device list"
  ftdi_init :: int
  ftdi_usb_open_dev :: "libusb_device \<Rightarrow> int"
  libusb_get_device_descriptor :: int
  libusb_get_string_descriptor_ascii :: "desc_index \<Rightarrow> int \<times> string"
  ftdi_eeprom_initdefaults :: "string \<Rightarrow> string \<Rightarrow> string \<Rightarrow> int"
  ftdi_eeprom_build :: int
  ftdi_write_eeprom :: int
  libusb_strerror :: "int \<Rightarrow> string"

section \<open>\<^verbatim>\<open>print_help\<close> and \<^verbatim>\<open>print_verbose\<close>\<close>

text \<open>
  \<^verbatim>\<open>argv[0]\<close>, printed with \<^verbatim>\<open>%s\<close>; a program started with an empty \<^verbatim>\<open>argv\<close> has
  \<^verbatim>\<open>NULL\<close> there, which glibc prints as \<^verbatim>\<open>(null)\<close>.
\<close>

definition program_name :: "string list \<Rightarrow> string" where
  "program_name argv = (case argv of [] \<Rightarrow> ''(null)'' | a # _ \<Rightarrow> a)"

definition print_help :: "string list \<Rightarrow> event list" where
  "print_help argv =
     [Stdout (''USAGE: '' @ program_name argv @ '' [OPTIONS] bus:device'' @ newline),
      Stdout (''Use lsusb to find the bus and device numbers.'' @ newline),
      Stdout (''Options:'' @ newline),
      Stdout (''  -m, --manufacturer=MFG Set the manufacturer to the specified value'' @ newline),
      Stdout (''  -p, --product=PRODUCT  Set the product to the specified value'' @ newline),
      Stdout (''  -s, --serial=SERIAL    Set the serial to the specified value'' @ newline),
      Stdout (''  -v, --verbose          Verbose output'' @ newline),
      Stdout (''  -h, --help             Print this help screen and exit'' @ newline),
      Stdout (''Report bugs to <https://github.com/nemequ/ftdi-eeprom>'' @ newline)]"

definition print_verbose :: "bool \<Rightarrow> string \<Rightarrow> event list" where
  "print_verbose verbose_mode text = (if verbose_mode then [Stderr text] else [])"

section \<open>\<^verbatim>\<open>main\<close>\<close>

text \<open>
  A run returns the exit code and leaves a trace. \<open>after\<close> puts what has happened so
  far in front of the rest of a run.
\<close>

record run =
  exit_code :: int
  trace :: "event list"

abbreviation (input) EXIT_SUCCESS :: int where
  "EXIT_SUCCESS \<equiv> 0"

abbreviation (input) EXIT_FAILURE :: int where
  "EXIT_FAILURE \<equiv> 1"

definition after :: "event list \<Rightarrow> run \<Rightarrow> run" where
  "after es r = r\<lparr>trace := es @ trace r\<rparr>"

text \<open>
  Lines 79 to 98: the option loop over the returns of \<^verbatim>\<open>getopt_long\<close>. The three
  strings start as \<^verbatim>\<open>NULL\<close> and \<^verbatim>\<open>verbose_mode\<close> as false; \<open>h\<close> leaves the loop and
  the program. A value with no \<^verbatim>\<open>case\<close> of its own (\<open>?\<close> for an option that
  \<^verbatim>\<open>getopt_long\<close> rejects) changes nothing.
\<close>

record options =
  manufacturer :: "string option"
  product :: "string option"
  serial :: "string option"
  verbose_mode :: bool

datatype loop_exit = Help | Done options

fun option_loop :: "(char \<times> string option) list \<Rightarrow> options \<Rightarrow> loop_exit" where
  "option_loop [] opts = Done opts"
| "option_loop ((c, optarg) # rest) opts =
     (if c = CHR ''m'' then option_loop rest (opts\<lparr>manufacturer := optarg\<rparr>)
      else if c = CHR ''p'' then option_loop rest (opts\<lparr>product := optarg\<rparr>)
      else if c = CHR ''s'' then option_loop rest (opts\<lparr>serial := optarg\<rparr>)
      else if c = CHR ''v'' then option_loop rest (opts\<lparr>verbose_mode := True\<rparr>)
      else if c = CHR ''h'' then Help
      else option_loop rest opts)"

text \<open>Lines 120 to 126: the first entry of the list with this bus and this address.\<close>

fun find_device :: "int \<Rightarrow> int \<Rightarrow> libusb_device list \<Rightarrow> libusb_device option" where
  "find_device bus device [] = None"
| "find_device bus device (d # ds) =
     (if uint (bus_number d) = bus \<and> uint (device_address d) = device then Some d
      else find_device bus device ds)"

text \<open>Lines 176 to 197: the three calls that program the EEPROM, and the close.\<close>

definition main_eeprom :: "environment \<Rightarrow> bool \<Rightarrow> string \<Rightarrow> string \<Rightarrow> string \<Rightarrow> run" where
  "main_eeprom env verbose manufacturer' product' serial' =
     after
       (print_verbose verbose (''New manufacturer: '' @ manufacturer' @ newline) @
        print_verbose verbose (''New product:      '' @ product' @ newline) @
        print_verbose verbose (''New serial:       '' @ serial' @ newline))
       (let ires = ftdi_eeprom_initdefaults env manufacturer' product' serial' in
        after [Call (Ftdi_eeprom_initdefaults manufacturer' product' serial' ires)]
          (if ires < 0 then
             \<lparr>exit_code = EXIT_FAILURE,
              trace = [Stderr (''Unable to set EEPROM defaults: '' @ fmt_d ires @ newline)]\<rparr>
           else
             (let ires = ftdi_eeprom_build env in
              after [Call (Ftdi_eeprom_build ires)]
                (if ires < 0 then
                   \<lparr>exit_code = EXIT_FAILURE,
                    trace = [Stderr (''Unable to build EEPROM: '' @ fmt_d ires @ newline)]\<rparr>
                 else
                   (let ires = ftdi_write_eeprom env in
                    after [Call (Ftdi_write_eeprom ires)]
                      (if ires < 0 then
                         \<lparr>exit_code = EXIT_FAILURE,
                          trace = [Stderr (''Unable to write EEPROM: '' @ fmt_d ires @ newline)]\<rparr>
                       else
                         \<lparr>exit_code = EXIT_SUCCESS, trace = [Call Ftdi_deinit]\<rparr>))))))"

text \<open>
  Lines 143 to 174: the device descriptor and the three strings of the device. A
  string that is still \<^verbatim>\<open>NULL\<close> after the option loop becomes the one just read.
\<close>

definition main_descriptors :: "environment \<Rightarrow> options \<Rightarrow> run" where
  "main_descriptors env opts =
     (let ires = libusb_get_device_descriptor env in
      after [Call (Libusb_get_device_descriptor ires)]
        (if ires < 0 then
           \<lparr>exit_code = EXIT_FAILURE,
            trace = [Stderr (''ERROR: Unable to retrieve device descriptor ('' @ fmt_d ires @
                             ''): '' @ libusb_strerror env ires @ newline)]\<rparr>
         else
           (let (ires, orig_manufacturer) = libusb_get_string_descriptor_ascii env iManufacturer in
            after [Call (Libusb_get_string_descriptor_ascii iManufacturer ires)]
              (if ires < 0 then
                 \<lparr>exit_code = EXIT_FAILURE,
                  trace = [Stderr (''ERROR: Unable to retrieve manufacturer ('' @ fmt_d ires @
                                   ''): '' @ libusb_strerror env ires @ newline)]\<rparr>
               else
                 after (print_verbose (verbose_mode opts)
                          (''Old manufacturer: '' @ orig_manufacturer @ newline))
                   (let manufacturer' =
                          (case manufacturer opts of None \<Rightarrow> orig_manufacturer | Some m \<Rightarrow> m);
                        (ires, orig_product) = libusb_get_string_descriptor_ascii env iProduct
                    in
                    after [Call (Libusb_get_string_descriptor_ascii iProduct ires)]
                      (if ires < 0 then
                         \<lparr>exit_code = EXIT_FAILURE,
                          trace = [Stderr (''ERROR: Unable to retrieve product ('' @ fmt_d ires @
                                           ''): '' @ libusb_strerror env ires @ newline)]\<rparr>
                       else
                         after (print_verbose (verbose_mode opts)
                                  (''Old product:      '' @ orig_product @ newline))
                           (let product' =
                                  (case product opts of None \<Rightarrow> orig_product | Some p \<Rightarrow> p);
                                (ires, orig_serial) =
                                  libusb_get_string_descriptor_ascii env iSerialNumber
                            in
                            after [Call (Libusb_get_string_descriptor_ascii iSerialNumber ires)]
                              (if ires < 0 then
                                 \<lparr>exit_code = EXIT_FAILURE,
                                  trace = [Stderr (''ERROR: Unable to retrieve serial ('' @
                                                   fmt_d ires @ ''): '' @
                                                   libusb_strerror env ires @ newline)]\<rparr>
                               else
                                 after (print_verbose (verbose_mode opts)
                                          (''Old serial:       '' @ orig_serial @ newline))
                                   (let serial' =
                                          (case serial opts of
                                             None \<Rightarrow> orig_serial | Some s \<Rightarrow> s)
                                    in main_eeprom env (verbose_mode opts)
                                         manufacturer' product' serial')))))))))"

text \<open>Lines 132 to 141: the FTDI context and the device opened in it.\<close>

definition main_ftdi :: "environment \<Rightarrow> options \<Rightarrow> libusb_device \<Rightarrow> run" where
  "main_ftdi env opts usb_device =
     (let ires = ftdi_init env in
      after [Call (Ftdi_init ires)]
        (if ires \<noteq> 0 then
           \<lparr>exit_code = EXIT_FAILURE,
            trace = [Stderr (''ERROR: Unable to initialize libftdi ('' @ fmt_d ires @ '')'' @
                             newline)]\<rparr>
         else
           (let ires = ftdi_usb_open_dev env usb_device in
            after [Call (Ftdi_usb_open_dev usb_device ires)]
              (if ires \<noteq> 0 then
                 \<lparr>exit_code = EXIT_FAILURE,
                  trace =
                    [Stderr (''ERROR: Unable to open device ('' @ fmt_d ires @ '')'' @ newline),
                     Stderr (''       Perhaps you don'' @ [CHR 0x27] @
                             ''t have sufficient permissions (i.e., you aren'' @ [CHR 0x27] @
                             ''t root)?'' @ newline)]\<rparr>
               else main_descriptors env opts))))"

text \<open>
  Lines 111 to 130: the enumeration and the search. The value that \<^verbatim>\<open>libusb_init\<close>
  returns is not looked at. \<^verbatim>\<open>libusb_strerror\<close> gets \<^verbatim>\<open>n_devices\<close> cast to
  \<^verbatim>\<open>enum libusb_error\<close>, which has the size of an \<^verbatim>\<open>int\<close>.
\<close>

definition main_usb :: "environment \<Rightarrow> options \<Rightarrow> int \<Rightarrow> int \<Rightarrow> run" where
  "main_usb env opts bus device =
     after [Call (Libusb_init (libusb_init env))]
       (let (n_devices, usb_devices) = libusb_get_device_list env in
        after [Call (Libusb_get_device_list n_devices usb_devices)]
          (if n_devices < 0 then
             \<lparr>exit_code = EXIT_FAILURE,
              trace = [Stderr (''ERROR: Unable to list USB devices ['' @ fmt_d n_devices @
                               '']: '' @ libusb_strerror env (int_of_long n_devices) @
                               newline)]\<rparr>
           else
             (case find_device bus device (take (nat n_devices) usb_devices) of
                None \<Rightarrow>
                  \<lparr>exit_code = EXIT_FAILURE,
                   trace = [Stderr (''ERROR: Unable to find USB device at '' @ fmt_03d bus @
                                    '':'' @ fmt_03d device @ newline)]\<rparr>
              | Some usb_device \<Rightarrow> main_ftdi env opts usb_device)))"

text \<open>
  Lines 57 to 109, and the whole program. \<open>argv\<close> is the argument vector as
  \<^verbatim>\<open>getopt_long\<close> leaves it (GNU \<^verbatim>\<open>getopt_long\<close> moves the non-options behind the
  options), \<open>argc\<close> its length; \<^verbatim>\<open>bus\<close> and \<^verbatim>\<open>device\<close> start as \<open>-1\<close>.
\<close>

definition main :: "string list \<Rightarrow> environment \<Rightarrow> run" where
  "main argv env =
     (case option_loop (getopt_long env)
             \<lparr>manufacturer = None, product = None, serial = None, verbose_mode = False\<rparr> of
        Help \<Rightarrow> \<lparr>exit_code = EXIT_SUCCESS, trace = print_help argv\<rparr>
      | Done opts \<Rightarrow>
          if optind env + 1 \<noteq> length argv then
            \<lparr>exit_code = EXIT_FAILURE, trace = print_help argv\<rparr>
          else
            (let (parsed, bus, device) = parse_device_identifier (- 1) (- 1) (argv ! optind env)
             in if \<not> parsed then
                  \<lparr>exit_code = EXIT_FAILURE,
                   trace = [Stderr (''Unable to parse '' @ [CHR 0x60] @ argv ! optind env @
                                    [CHR 0x27] @ newline)]\<rparr>
                else
                  after (print_verbose (verbose_mode opts)
                           (''Using device '' @ fmt_03d bus @ '':'' @ fmt_03d device @ newline))
                    (main_usb env opts bus device)))"

section \<open>Reading a run\<close>

text \<open>The library calls of a trace, in order.\<close>

fun calls :: "event list \<Rightarrow> library_call list" where
  "calls [] = []"
| "calls (Call c # es) = c # calls es"
| "calls (Stdout text # es) = calls es"
| "calls (Stderr text # es) = calls es"

text \<open>
  The test that \<^verbatim>\<open>main\<close> applies to the value a call returned, true when the program
  takes the error branch: \<^verbatim>\<open>n_devices < 0\<close>, \<^verbatim>\<open>!= 0\<close> for \<^verbatim>\<open>ftdi_init\<close> and
  \<^verbatim>\<open>ftdi_usb_open_dev\<close>, \<^verbatim>\<open>< 0\<close> for the others. The value of \<^verbatim>\<open>libusb_init\<close> is never
  tested, and \<^verbatim>\<open>ftdi_deinit\<close> returns nothing.
\<close>

fun checked_failure :: "library_call \<Rightarrow> bool" where
  "checked_failure (Libusb_init r) = False"
| "checked_failure (Libusb_get_device_list n_devices usb_devices) = (n_devices < 0)"
| "checked_failure (Ftdi_init r) = (r \<noteq> 0)"
| "checked_failure (Ftdi_usb_open_dev usb_device r) = (r \<noteq> 0)"
| "checked_failure (Libusb_get_device_descriptor r) = (r < 0)"
| "checked_failure (Libusb_get_string_descriptor_ascii i r) = (r < 0)"
| "checked_failure (Ftdi_eeprom_initdefaults m p s r) = (r < 0)"
| "checked_failure (Ftdi_eeprom_build r) = (r < 0)"
| "checked_failure (Ftdi_write_eeprom r) = (r < 0)"
| "checked_failure Ftdi_deinit = False"

text \<open>
  What the user gave for an option: the \<^verbatim>\<open>optarg\<close> of the last return of
  \<^verbatim>\<open>getopt_long\<close> with this option character, \<open>None\<close> when there is no such return.
\<close>

definition last_optarg :: "char \<Rightarrow> (char \<times> string option) list \<Rightarrow> string option" where
  "last_optarg c returns =
     (case filter (\<lambda>r. fst r = c) returns of [] \<Rightarrow> None | r # rs \<Rightarrow> snd (last (r # rs)))"

abbreviation (input) no_options :: options where
  "no_options \<equiv> \<lparr>manufacturer = None, product = None, serial = None, verbose_mode = False\<rparr>"

text \<open>The bus and the device that the identifier \<^verbatim>\<open>argv[optind]\<close> parses to.\<close>

abbreviation (input) identifier_bus :: "string list \<Rightarrow> environment \<Rightarrow> int" where
  "identifier_bus argv env \<equiv>
     fst (snd (parse_device_identifier (- 1) (- 1) (argv ! optind env)))"

abbreviation (input) identifier_device :: "string list \<Rightarrow> environment \<Rightarrow> int" where
  "identifier_device argv env \<equiv>
     snd (snd (parse_device_identifier (- 1) (- 1) (argv ! optind env)))"

text \<open>The entries \<^verbatim>\<open>usb_devices[0]\<close> to \<^verbatim>\<open>usb_devices[n_devices - 1]\<close> that the loop visits.\<close>

abbreviation (input) enumerated :: "environment \<Rightarrow> libusb_device list" where
  "enumerated env \<equiv>
     take (nat (fst (libusb_get_device_list env))) (snd (libusb_get_device_list env))"

subsection \<open>The call sequences of the blocks of \<^verbatim>\<open>main\<close>\<close>

text \<open>
  The calls of each block of \<^verbatim>\<open>main\<close>, without the output between them; the lemmas
  \<open>calls_main_eeprom\<close> to \<open>calls_main\<close> below prove that these are the calls of the
  model's traces.
\<close>

definition chosen :: "environment \<Rightarrow> string option \<Rightarrow> desc_index \<Rightarrow> string" where
  "chosen env given i =
     (case given of None \<Rightarrow> snd (libusb_get_string_descriptor_ascii env i) | Some a \<Rightarrow> a)"

definition eeprom_calls :: "environment \<Rightarrow> string \<Rightarrow> string \<Rightarrow> string \<Rightarrow> library_call list" where
  "eeprom_calls env m p s =
     Ftdi_eeprom_initdefaults m p s (ftdi_eeprom_initdefaults env m p s) #
     (if ftdi_eeprom_initdefaults env m p s < 0 then []
      else Ftdi_eeprom_build (ftdi_eeprom_build env) #
        (if ftdi_eeprom_build env < 0 then []
         else Ftdi_write_eeprom (ftdi_write_eeprom env) #
           (if ftdi_write_eeprom env < 0 then [] else [Ftdi_deinit])))"

definition eeprom_ok :: "environment \<Rightarrow> string \<Rightarrow> string \<Rightarrow> string \<Rightarrow> bool" where
  "eeprom_ok env m p s \<longleftrightarrow>
     0 \<le> ftdi_eeprom_initdefaults env m p s \<and> 0 \<le> ftdi_eeprom_build env \<and>
     0 \<le> ftdi_write_eeprom env"

definition descriptor_calls :: "environment \<Rightarrow> options \<Rightarrow> library_call list" where
  "descriptor_calls env opts =
     Libusb_get_device_descriptor (libusb_get_device_descriptor env) #
     (if libusb_get_device_descriptor env < 0 then []
      else Libusb_get_string_descriptor_ascii iManufacturer
             (fst (libusb_get_string_descriptor_ascii env iManufacturer)) #
        (if fst (libusb_get_string_descriptor_ascii env iManufacturer) < 0 then []
         else Libusb_get_string_descriptor_ascii iProduct
                (fst (libusb_get_string_descriptor_ascii env iProduct)) #
           (if fst (libusb_get_string_descriptor_ascii env iProduct) < 0 then []
            else Libusb_get_string_descriptor_ascii iSerialNumber
                   (fst (libusb_get_string_descriptor_ascii env iSerialNumber)) #
              (if fst (libusb_get_string_descriptor_ascii env iSerialNumber) < 0 then []
               else eeprom_calls env (chosen env (manufacturer opts) iManufacturer)
                      (chosen env (product opts) iProduct)
                      (chosen env (serial opts) iSerialNumber)))))"

definition descriptors_ok :: "environment \<Rightarrow> bool" where
  "descriptors_ok env \<longleftrightarrow>
     0 \<le> libusb_get_device_descriptor env \<and>
     0 \<le> fst (libusb_get_string_descriptor_ascii env iManufacturer) \<and>
     0 \<le> fst (libusb_get_string_descriptor_ascii env iProduct) \<and>
     0 \<le> fst (libusb_get_string_descriptor_ascii env iSerialNumber)"

definition ftdi_calls :: "environment \<Rightarrow> options \<Rightarrow> libusb_device \<Rightarrow> library_call list" where
  "ftdi_calls env opts usb_device =
     Ftdi_init (ftdi_init env) #
     (if ftdi_init env \<noteq> 0 then []
      else Ftdi_usb_open_dev usb_device (ftdi_usb_open_dev env usb_device) #
        (if ftdi_usb_open_dev env usb_device \<noteq> 0 then [] else descriptor_calls env opts))"

definition usb_calls :: "environment \<Rightarrow> options \<Rightarrow> int \<Rightarrow> int \<Rightarrow> library_call list" where
  "usb_calls env opts bus device =
     Libusb_init (libusb_init env) #
     Libusb_get_device_list (fst (libusb_get_device_list env)) (snd (libusb_get_device_list env)) #
     (if fst (libusb_get_device_list env) < 0 then []
      else
        (case find_device bus device (enumerated env) of
           None \<Rightarrow> []
         | Some usb_device \<Rightarrow> ftdi_calls env opts usb_device))"

text \<open>A run whose last event is a message on standard error.\<close>

definition ends_on_stderr :: "run \<Rightarrow> bool" where
  "ends_on_stderr r \<longleftrightarrow> trace r \<noteq> [] \<and> (\<exists>text. last (trace r) = Stderr text)"

subsection \<open>Example runs\<close>

text \<open>
  \<^verbatim>\<open>ftdi-eeprom -m ACME 1:2\<close> with two devices on bus 1 and every call succeeding; the
  device at \<^verbatim>\<open>1:2\<close> reports the strings FTDI, UART and A01.
\<close>

definition argv_example :: "string list" where
  "argv_example = [''ftdi-eeprom'', ''-m'', ''ACME'', ''1:2'']"

definition env_example :: environment where
  "env_example =
     \<lparr>getopt_long = [(CHR ''m'', Some ''ACME'')],
      optind = 3,
      libusb_init = 0,
      libusb_get_device_list =
        (2, [\<lparr>bus_number = 1, device_address = 1\<rparr>, \<lparr>bus_number = 1, device_address = 2\<rparr>]),
      ftdi_init = 0,
      ftdi_usb_open_dev = (\<lambda>usb_device. 0),
      libusb_get_device_descriptor = 0,
      libusb_get_string_descriptor_ascii =
        (\<lambda>i. case i of iManufacturer \<Rightarrow> (4, ''FTDI'') | iProduct \<Rightarrow> (4, ''UART'')
              | iSerialNumber \<Rightarrow> (3, ''A01'')),
      ftdi_eeprom_initdefaults = (\<lambda>manufacturer' product' serial'. 0),
      ftdi_eeprom_build = 0,
      ftdi_write_eeprom = 0,
      libusb_strerror = (\<lambda>code. ''Other error'')\<rparr>"

text \<open>The same invocation when the device cannot be opened (no permission).\<close>

definition env_open_fails :: environment where
  "env_open_fails = env_example\<lparr>ftdi_usb_open_dev := (\<lambda>usb_device. - 4)\<rparr>"

text \<open>
  The same invocation when \<^verbatim>\<open>libusb_init\<close> returns \<^verbatim>\<open>LIBUSB_ERROR_OTHER\<close> and the
  enumeration that follows fails likewise.
\<close>

definition env_libusb_init_fails :: environment where
  "env_libusb_init_fails =
     env_example\<lparr>libusb_init := - 99, libusb_get_device_list := (- 99, [])\<rparr>"

text \<open>
  Invocations without an option: \<^verbatim>\<open>ftdi-eeprom 1:2\<close>; \<^verbatim>\<open>ftdi-eeprom 1:2 1:3\<close>, two
  positional arguments; \<^verbatim>\<open>ftdi-eeprom abc\<close>, no identifier; \<^verbatim>\<open>ftdi-eeprom 1:3\<close>, no
  such device.
\<close>

definition env_no_option :: environment where
  "env_no_option = env_example\<lparr>getopt_long := [], optind := 1\<rparr>"

definition argv_identifier :: "string list" where
  "argv_identifier = [''ftdi-eeprom'', ''1:2'']"

definition argv_two_identifiers :: "string list" where
  "argv_two_identifiers = [''ftdi-eeprom'', ''1:2'', ''1:3'']"

definition argv_unparsable :: "string list" where
  "argv_unparsable = [''ftdi-eeprom'', ''abc'']"

definition argv_absent :: "string list" where
  "argv_absent = [''ftdi-eeprom'', ''1:3'']"

text \<open>
  \<^verbatim>\<open>ftdi-eeprom -h\<close> and \<^verbatim>\<open>ftdi-eeprom --help 1:2 1:3\<close>: \<^verbatim>\<open>getopt_long\<close> returns \<open>h\<close>, and
  the first argument after the option has index 2.
\<close>

definition argv_help :: "string list" where
  "argv_help = [''ftdi-eeprom'', ''-h'']"

definition argv_help_two_identifiers :: "string list" where
  "argv_help_two_identifiers = [''ftdi-eeprom'', ''--help'', ''1:2'', ''1:3'']"

definition env_help :: environment where
  "env_help = env_example\<lparr>getopt_long := [(CHR ''h'', None)], optind := 2\<rparr>"

section \<open>Lemmas\<close>

lemmas strtol_defs =
  strtol_def read_sign_def read_base_def is_digit_def digit_value_def deref_def isspace_def
  clamp_long_def LONG_MAX_def LONG_MIN_def int_of_long_def

lemma strtol_colon: "strtol (CHR '':'' # s) = (0, CHR '':'' # s)"
  by (simp add: strtol_defs split: list.splits)

lemma int_of_long_in_range: "- (2 ^ 31) \<le> v \<Longrightarrow> v < 2 ^ 31 \<Longrightarrow> int_of_long v = v"
  by (simp add: int_of_long_def sint_sbintrunc' signed_take_bit_int_eq_self)

lemma int_of_long_clamp_long_nat: "n < 2 ^ 31 \<Longrightarrow> int_of_long (clamp_long (int n)) = int n"
proof -
  assume "n < 2 ^ 31"
  then have n: "int n < 2 ^ 31"
    by (metis of_nat_less_iff of_nat_numeral of_nat_power)
  then have "clamp_long (int n) = int n"
    by (simp add: clamp_long_def LONG_MAX_def LONG_MIN_def)
  with n show ?thesis
    by (simp add: int_of_long_in_range)
qed

subsection \<open>\<^verbatim>\<open>strtol\<close> on decimal numerals\<close>

text \<open>
  \<open>decimal n\<close> is the numeral of \<open>n\<close> in base 10 without leading zeros. \<^verbatim>\<open>strtol\<close>
  converts it, up to the first character that is no decimal digit, to \<open>n\<close> (or to
  \<^verbatim>\<open>LONG_MAX\<close>).
\<close>

lemma digit_cases:
  assumes "d < (10::nat)"
  shows "d = 0 \<or> d = 1 \<or> d = 2 \<or> d = 3 \<or> d = 4 \<or> d = 5 \<or> d = 6 \<or> d = 7 \<or> d = 8 \<or> d = 9"
  using assms by arith

lemma digit_char_facts:
  assumes "d < 10"
  shows "digit_value (digit_char d) = Some d"
    and "\<not> isspace (digit_char d)"
    and "digit_char d \<noteq> CHR ''-''"
    and "digit_char d \<noteq> CHR ''+''"
    and "digit_char d = CHR ''0'' \<longleftrightarrow> d = 0"
  using digit_cases [OF assms]
  by (auto simp: digit_char_def digit_value_def isspace_def)

lemma decimal_not_Nil: "decimal n \<noteq> []"
  by (subst decimal.simps) simp

lemma decimal_small: "n < 10 \<Longrightarrow> decimal n = [digit_char n]"
  by (subst decimal.simps) simp

lemma decimal_large:
  "\<not> n < 10 \<Longrightarrow> decimal n = decimal (n div 10) @ [digit_char (n mod 10)]"
  by (subst decimal.simps) simp

lemma hd_decimal: "\<exists>d<10. hd (decimal n) = digit_char d \<and> (d = 0 \<longleftrightarrow> n = 0)"
proof (induction n rule: decimal.induct)
  case (1 n)
  show ?case
  proof (cases "n < 10")
    case True
    then have "hd (decimal n) = digit_char n"
      by (simp only: decimal_small list.sel)
    with True have "n < 10 \<and> hd (decimal n) = digit_char n \<and> (n = 0 \<longleftrightarrow> n = 0)"
      by (simp only: simp_thms)
    then show ?thesis
      by (rule exI)
  next
    case False
    from 1 [OF False] obtain d
      where "d < 10 \<and> hd (decimal (n div 10)) = digit_char d \<and> (d = 0 \<longleftrightarrow> n div 10 = 0)" ..
    then have d: "d < 10" "hd (decimal (n div 10)) = digit_char d" "d = 0 \<longleftrightarrow> n div 10 = 0"
      by (simp_all only: simp_thms)
    from False have nz: "n div 10 \<noteq> 0" "n \<noteq> 0"
      by simp_all
    have "hd (decimal n) = hd (decimal (n div 10) @ [digit_char (n mod 10)])"
      by (simp only: decimal_large [OF False])
    also have "\<dots> = hd (decimal (n div 10))"
      by (rule hd_append2) (rule decimal_not_Nil)
    finally have "hd (decimal n) = digit_char d"
      by (simp only: d(2))
    with d(1,3) nz have "d < 10 \<and> hd (decimal n) = digit_char d \<and> (d = 0 \<longleftrightarrow> n = 0)"
      by (simp only: simp_thms)
    then show ?thesis
      by (rule exI)
  qed
qed

lemma convert_digits_decimal:
  "convert_digits 10 0 (decimal n @ rest) = convert_digits 10 (int n) rest"
proof (induction n arbitrary: rest rule: decimal.induct)
  case (1 n)
  show ?case
  proof (cases "n < 10")
    case True
    then show ?thesis
      by (simp add: decimal_small digit_char_facts)
  next
    case False
    have "int (n div 10 * 10 + n mod 10) = int n"
      by simp
    then have eq: "int (n div 10) * 10 + int (n mod 10) = int n"
      by (simp only: of_nat_add of_nat_mult of_nat_numeral)
    have "convert_digits 10 0 (decimal n @ rest) =
        convert_digits 10 0 (decimal (n div 10) @ digit_char (n mod 10) # rest)"
      by (simp add: decimal_large [OF False])
    also have "\<dots> = convert_digits 10 (int (n div 10)) (digit_char (n mod 10) # rest)"
      by (rule 1 [OF False])
    also have "\<dots> = convert_digits 10 (int (n div 10) * 10 + int (n mod 10)) rest"
      by (simp add: digit_char_facts)
    also have "\<dots> = convert_digits 10 (int n) rest"
      by (simp only: eq)
    finally show ?thesis .
  qed
qed

lemma convert_digits_stop:
  "\<not> is_digit base (deref rest) \<Longrightarrow> convert_digits base acc rest = (acc, rest)"
  by (cases rest) (auto simp: is_digit_def deref_def split: option.splits)

lemma read_base_decimal: "s \<noteq> [] \<Longrightarrow> hd s \<noteq> CHR ''0'' \<Longrightarrow> read_base s = (10, s)"
  by (auto simp: read_base_def split: list.splits)

lemma read_base_zero:
  "deref rest \<noteq> CHR ''x'' \<Longrightarrow> deref rest \<noteq> CHR ''X'' \<Longrightarrow>
   read_base (CHR ''0'' # rest) = (8, CHR ''0'' # rest)"
  by (auto simp: read_base_def deref_def split: list.splits)

lemma is_digit_8_10: "is_digit 8 c \<Longrightarrow> is_digit 10 c"
  by (auto simp: is_digit_def split: option.splits)

lemma strtol_decimal:
  assumes "\<not> is_digit 10 (deref rest)"
    and "deref rest \<noteq> CHR ''x''" and "deref rest \<noteq> CHR ''X''"
  shows "strtol (decimal n @ rest) = (clamp_long (int n), rest)"
proof -
  obtain d where d: "d < 10" "hd (decimal n) = digit_char d" "d = 0 \<longleftrightarrow> n = 0"
    using hd_decimal by blast
  obtain c cs where s: "decimal n = c # cs"
    using decimal_not_Nil by (cases "decimal n") auto
  with d have c: "c = digit_char d" by simp
  have sp: "dropWhile isspace (decimal n @ rest) = decimal n @ rest"
    using s c digit_char_facts(2) [OF d(1)] by simp
  have sg: "read_sign (decimal n @ rest) = (False, decimal n @ rest)"
    using s c digit_char_facts(3,4) [OF d(1)] by (simp add: read_sign_def)
  show ?thesis
  proof (cases "n = 0")
    case True
    then have dec: "decimal n @ rest = CHR ''0'' # rest"
      by (simp add: decimal_small digit_char_def)
    have dw: "dropWhile isspace (CHR ''0'' # rest) = CHR ''0'' # rest"
      by (simp add: isspace_def)
    have sg0: "read_sign (CHR ''0'' # rest) = (False, CHR ''0'' # rest)"
      by (simp add: read_sign_def)
    note rb0 = read_base_zero [OF assms(2,3)]
    have dg0: "is_digit 8 (deref (CHR ''0'' # rest))"
      by (simp add: is_digit_def digit_value_def deref_def)
    have "\<not> is_digit 8 (deref rest)"
      using assms(1) is_digit_8_10 by blast
    then have cv0: "convert_digits 8 0 (CHR ''0'' # rest) = (0, rest)"
      by (simp add: digit_value_def convert_digits_stop)
    have "strtol (CHR ''0'' # rest) = (clamp_long (if False then - 0 else 0), rest)"
      by (simp only: strtol_def dw sg0 rb0 dg0 cv0 Let_def prod.case if_True)
    with True dec show ?thesis
      by (simp add: clamp_long_def LONG_MAX_def LONG_MIN_def)
  next
    case False
    with d c have "c \<noteq> CHR ''0''"
      using digit_char_facts(5) [OF d(1)] by simp
    with s have rb: "read_base (decimal n @ rest) = (10, decimal n @ rest)"
      by (intro read_base_decimal) simp_all
    have dg: "is_digit 10 (deref (decimal n @ rest))"
      using s c d(1) digit_char_facts(1) [OF d(1)] by (simp add: deref_def is_digit_def)
    have "convert_digits 10 0 (decimal n @ rest) = (int n, rest)"
      by (simp add: convert_digits_decimal convert_digits_stop [OF assms(1)])
    with rb dg show ?thesis
      by (simp add: strtol_def sp sg)
  qed
qed

lemma strtol_decimal_end: "strtol (decimal n) = (clamp_long (int n), [])"
  using strtol_decimal [of "[]" n] by (simp add: deref_def is_digit_def digit_value_def)

lemma strtol_decimal_colon:
  "strtol (decimal n @ CHR '':'' # suffix) = (clamp_long (int n), CHR '':'' # suffix)"
  using strtol_decimal [of "CHR '':'' # suffix" n]
  by (simp add: deref_def is_digit_def digit_value_def)


subsection \<open>The option loop\<close>

lemma option_loop_Help: "option_loop returns opts = Help \<longleftrightarrow> CHR ''h'' \<in> fst ` set returns"
  by (induction returns opts rule: option_loop.induct) auto

lemma last_optarg_Cons:
  "last_optarg c ((c', a) # rest) =
     (if c \<in> fst ` set rest then last_optarg c rest else if c' = c then a else None)"
proof -
  have *: "c \<in> fst ` set rest \<longleftrightarrow> filter (\<lambda>r. fst r = c) rest \<noteq> []"
    by (auto simp: filter_empty_conv)
  show ?thesis
    unfolding * by (auto simp: last_optarg_def split: list.splits)
qed

lemma last_optarg_absent:
  assumes "c \<notin> fst ` set returns"
  shows "last_optarg c returns = None"
proof -
  have "filter (\<lambda>r. fst r = c) returns = []"
    using assms by (auto simp: filter_empty_conv)
  then show ?thesis
    by (simp add: last_optarg_def)
qed

lemma option_loop_Done:
  "option_loop returns opts = Done opts' \<Longrightarrow>
     manufacturer opts' =
       (if CHR ''m'' \<in> fst ` set returns then last_optarg (CHR ''m'') returns
        else manufacturer opts) \<and>
     product opts' =
       (if CHR ''p'' \<in> fst ` set returns then last_optarg (CHR ''p'') returns
        else product opts) \<and>
     serial opts' =
       (if CHR ''s'' \<in> fst ` set returns then last_optarg (CHR ''s'') returns
        else serial opts)"
proof (induction returns opts rule: option_loop.induct)
  case (1 opts)
  then show ?case by simp
next
  case (2 c optarg rest opts)
  then show ?case
    by (simp add: last_optarg_Cons split: if_splits)
qed

lemma option_loop_strings:
  assumes "option_loop returns no_options = Done opts"
  shows "manufacturer opts = last_optarg (CHR ''m'') returns"
    and "product opts = last_optarg (CHR ''p'') returns"
    and "serial opts = last_optarg (CHR ''s'') returns"
  using option_loop_Done [OF assms] by (simp_all add: last_optarg_absent)

subsection \<open>The search\<close>


subsection \<open>Calls and exit code of each block\<close>

lemma calls_append [simp]: "calls (xs @ ys) = calls xs @ calls ys"
  by (induction xs rule: calls.induct) simp_all

lemma calls_print_verbose [simp]: "calls (print_verbose v text) = []"
  by (simp add: print_verbose_def)

lemma calls_print_help [simp]: "calls (print_help argv) = []"
  by (simp add: print_help_def)

lemma print_help_Stdout: "\<forall>e \<in> set (print_help argv). \<exists>text. e = Stdout text"
  by (simp add: print_help_def)

lemma trace_after [simp]: "trace (after es r) = es @ trace r"
  by (simp add: after_def)

lemma exit_code_after [simp]: "exit_code (after es r) = exit_code r"
  by (simp add: after_def)

lemma calls_main_eeprom: "calls (trace (main_eeprom env v m p s)) = eeprom_calls env m p s"
  by (simp add: main_eeprom_def eeprom_calls_def Let_def)

lemma exit_code_main_eeprom:
  "exit_code (main_eeprom env v m p s) =
     (if eeprom_ok env m p s then EXIT_SUCCESS else EXIT_FAILURE)"
  by (auto simp add: main_eeprom_def eeprom_ok_def Let_def)

lemma calls_main_descriptors:
  "calls (trace (main_descriptors env opts)) = descriptor_calls env opts"
  by (simp add: main_descriptors_def descriptor_calls_def calls_main_eeprom chosen_def Let_def
      case_prod_beta)

lemma exit_code_main_descriptors:
  "exit_code (main_descriptors env opts) =
     (if descriptors_ok env \<and>
         eeprom_ok env (chosen env (manufacturer opts) iManufacturer)
           (chosen env (product opts) iProduct) (chosen env (serial opts) iSerialNumber)
      then EXIT_SUCCESS else EXIT_FAILURE)"
  by (simp add: main_descriptors_def descriptors_ok_def exit_code_main_eeprom chosen_def Let_def
      case_prod_beta)

lemma calls_main_ftdi:
  "calls (trace (main_ftdi env opts usb_device)) = ftdi_calls env opts usb_device"
  by (simp add: main_ftdi_def ftdi_calls_def calls_main_descriptors Let_def)

lemma exit_code_main_ftdi:
  "exit_code (main_ftdi env opts usb_device) =
     (if ftdi_init env = 0 \<and> ftdi_usb_open_dev env usb_device = 0
      then exit_code (main_descriptors env opts) else EXIT_FAILURE)"
  by (simp add: main_ftdi_def Let_def)

lemma calls_main_usb: "calls (trace (main_usb env opts bus device)) = usb_calls env opts bus device"
  by (simp add: main_usb_def usb_calls_def calls_main_ftdi Let_def case_prod_beta
      split: option.splits)

lemma exit_code_main_usb:
  "exit_code (main_usb env opts bus device) =
     (if fst (libusb_get_device_list env) < 0 then EXIT_FAILURE
      else
        (case find_device bus device (enumerated env) of
           None \<Rightarrow> EXIT_FAILURE
         | Some usb_device \<Rightarrow> exit_code (main_ftdi env opts usb_device)))"
  by (simp add: main_usb_def Let_def case_prod_beta split: option.splits)

lemma calls_main:
  "calls (trace (main argv env)) =
     (case option_loop (getopt_long env) no_options of
        Help \<Rightarrow> []
      | Done opts \<Rightarrow>
          if optind env + 1 \<noteq> length argv then []
          else if \<not> fst (parse_device_identifier (- 1) (- 1) (argv ! optind env)) then []
          else usb_calls env opts (identifier_bus argv env) (identifier_device argv env))"
  by (simp add: main_def calls_main_usb Let_def case_prod_beta split: loop_exit.splits)

lemma exit_code_main:
  "exit_code (main argv env) =
     (case option_loop (getopt_long env) no_options of
        Help \<Rightarrow> EXIT_SUCCESS
      | Done opts \<Rightarrow>
          if optind env + 1 \<noteq> length argv then EXIT_FAILURE
          else if \<not> fst (parse_device_identifier (- 1) (- 1) (argv ! optind env))
          then EXIT_FAILURE
          else exit_code
                 (main_usb env opts (identifier_bus argv env) (identifier_device argv env)))"
  by (simp add: main_def Let_def case_prod_beta split: loop_exit.splits)

text \<open>
  The four ways through lines 79 to 109: help, a wrong number of arguments, an
  identifier that does not parse, and on to the USB part.
\<close>

lemma main_cases [case_names help_exit bad_count bad_identifier usb]:
  obtains
    "CHR ''h'' \<in> fst ` set (getopt_long env)"
    "main argv env = \<lparr>exit_code = EXIT_SUCCESS, trace = print_help argv\<rparr>"
  | "CHR ''h'' \<notin> fst ` set (getopt_long env)" "optind env + 1 \<noteq> length argv"
    "main argv env = \<lparr>exit_code = EXIT_FAILURE, trace = print_help argv\<rparr>"
  | "CHR ''h'' \<notin> fst ` set (getopt_long env)" "optind env + 1 = length argv"
    "\<not> fst (parse_device_identifier (- 1) (- 1) (argv ! optind env))"
    "calls (trace (main argv env)) = []" "exit_code (main argv env) = EXIT_FAILURE"
  | opts where
    "CHR ''h'' \<notin> fst ` set (getopt_long env)" "optind env + 1 = length argv"
    "fst (parse_device_identifier (- 1) (- 1) (argv ! optind env))"
    "option_loop (getopt_long env) no_options = Done opts"
    "calls (trace (main argv env)) =
       usb_calls env opts (identifier_bus argv env) (identifier_device argv env)"
    "exit_code (main argv env) =
       exit_code (main_usb env opts (identifier_bus argv env) (identifier_device argv env))"
proof (cases "option_loop (getopt_long env) no_options")
  case Help
  then have "CHR ''h'' \<in> fst ` set (getopt_long env)"
    by (simp add: option_loop_Help)
  moreover from Help
  have "main argv env = \<lparr>exit_code = EXIT_SUCCESS, trace = print_help argv\<rparr>"
    by (simp add: main_def)
  ultimately show ?thesis
    by (rule that(1))
next
  case (Done opts)
  then have noh: "CHR ''h'' \<notin> fst ` set (getopt_long env)"
    using option_loop_Help [of "getopt_long env" no_options] by auto
  show ?thesis
  proof (cases "optind env + 1 = length argv")
    case False
    with Done have "main argv env = \<lparr>exit_code = EXIT_FAILURE, trace = print_help argv\<rparr>"
      by (simp add: main_def)
    with noh False show ?thesis
      by (rule that(2))
  next
    case True
    show ?thesis
    proof (cases "fst (parse_device_identifier (- 1) (- 1) (argv ! optind env))")
      case False
      with Done True have "calls (trace (main argv env)) = []"
        and "exit_code (main argv env) = EXIT_FAILURE"
        by (simp_all add: calls_main exit_code_main)
      with noh True False show ?thesis
        by (rule that(3))
    next
      case parsed: True
      with Done True have
        "calls (trace (main argv env)) =
           usb_calls env opts (identifier_bus argv env) (identifier_device argv env)"
        and "exit_code (main argv env) =
           exit_code (main_usb env opts (identifier_bus argv env) (identifier_device argv env))"
        by (simp_all add: calls_main exit_code_main)
      with noh True parsed Done show ?thesis
        by (rule that(4))
    qed
  qed
qed

subsection \<open>The USB part\<close>

lemmas usb_calls_defs = usb_calls_def ftdi_calls_def descriptor_calls_def eeprom_calls_def

lemmas usb_exit_code =
  exit_code_main_usb exit_code_main_ftdi exit_code_main_descriptors descriptors_ok_def
  eeprom_ok_def

lemma exit_code_main_usb_cases:
  "exit_code (main_usb env opts bus device) = EXIT_SUCCESS \<or>
   exit_code (main_usb env opts bus device) = EXIT_FAILURE"
  by (auto simp: exit_code_main_usb exit_code_main_ftdi exit_code_main_descriptors
      split: if_splits option.splits)

lemma initdefaults_in_usb_calls:
  "Ftdi_eeprom_initdefaults m p s r \<in> set (usb_calls env opts bus device) \<Longrightarrow>
     m = chosen env (manufacturer opts) iManufacturer \<and>
     p = chosen env (product opts) iProduct \<and>
     s = chosen env (serial opts) iSerialNumber"
  by (auto simp: usb_calls_defs split: if_splits option.splits)

lemma deinit_in_usb_calls:
  "Ftdi_deinit \<in> set (usb_calls env opts bus device) \<longleftrightarrow>
     exit_code (main_usb env opts bus device) = EXIT_SUCCESS"
  by (auto simp: usb_calls_defs usb_exit_code split: if_splits option.splits)

lemma write_in_usb_calls:
  "(\<exists>ires\<ge>0. Ftdi_write_eeprom ires \<in> set (usb_calls env opts bus device)) \<longleftrightarrow>
     exit_code (main_usb env opts bus device) = EXIT_SUCCESS"
  by (auto simp: usb_calls_defs usb_exit_code split: if_splits option.splits)

lemma failure_in_usb_calls:
  "\<exists>c \<in> set (usb_calls env opts bus device). checked_failure c \<Longrightarrow>
     exit_code (main_usb env opts bus device) = EXIT_FAILURE"
  by (auto simp: usb_calls_defs usb_exit_code split: if_splits option.splits)

lemma butlast_usb_calls:
  "\<forall>c \<in> set (butlast (usb_calls env opts bus device)). \<not> checked_failure c"
  by (auto simp: usb_calls_defs split: if_splits option.splits)

lemma not_found_main_usb:
  "find_device bus device (enumerated env) = None \<Longrightarrow>
   exit_code (main_usb env opts bus device) = EXIT_FAILURE"
  by (simp add: exit_code_main_usb)



subsection \<open>Failures that the program tests for\<close>

lemma butlast_calls_main:
  "\<forall>c \<in> set (butlast (calls (trace (main argv env)))). \<not> checked_failure c"
proof (cases rule: main_cases [of env argv])
  case (usb opts)
  then show ?thesis
    using butlast_usb_calls by simp
qed simp_all

lemma ends_on_stderr_after: "ends_on_stderr r \<Longrightarrow> ends_on_stderr (after es r)"
  by (simp add: ends_on_stderr_def)

lemma ends_on_stderr_message:
  "ends_on_stderr \<lparr>exit_code = c, trace = [Stderr text]\<rparr>"
  "ends_on_stderr \<lparr>exit_code = c, trace = [Stderr text', Stderr text]\<rparr>"
  by (simp_all add: ends_on_stderr_def)

lemmas ends_on_stderr_intros = ends_on_stderr_after ends_on_stderr_message

lemma ends_on_stderr_main_eeprom:
  "exit_code (main_eeprom env v m p s) = EXIT_FAILURE \<Longrightarrow>
   ends_on_stderr (main_eeprom env v m p s)"
  by (auto simp: main_eeprom_def Let_def ends_on_stderr_intros split: if_splits)

lemma ends_on_stderr_main_descriptors:
  "exit_code (main_descriptors env opts) = EXIT_FAILURE \<Longrightarrow>
   ends_on_stderr (main_descriptors env opts)"
  by (auto simp: main_descriptors_def Let_def case_prod_beta ends_on_stderr_intros
      ends_on_stderr_main_eeprom split: if_splits)

lemma ends_on_stderr_main_ftdi:
  "exit_code (main_ftdi env opts usb_device) = EXIT_FAILURE \<Longrightarrow>
   ends_on_stderr (main_ftdi env opts usb_device)"
  by (auto simp: main_ftdi_def Let_def ends_on_stderr_intros ends_on_stderr_main_descriptors
      split: if_splits)

lemma ends_on_stderr_main_usb:
  "exit_code (main_usb env opts bus device) = EXIT_FAILURE \<Longrightarrow>
   ends_on_stderr (main_usb env opts bus device)"
  by (auto simp: main_usb_def Let_def case_prod_beta ends_on_stderr_intros
      ends_on_stderr_main_ftdi split: if_splits option.splits)

lemma ends_on_stderr_main:
  assumes "exit_code (main argv env) = EXIT_FAILURE" and "optind env + 1 = length argv"
  shows "ends_on_stderr (main argv env)"
  using assms
  by (auto simp: main_def Let_def case_prod_beta ends_on_stderr_intros ends_on_stderr_main_usb
      split: loop_exit.splits if_splits)

text \<open>
  A call whose value the program tests and rejects is the last call of its run: the
  run ends with exit code 1 and a message on standard error, and only output comes
  after the call.
\<close>

lemma checked_failure_stops:
  assumes "c \<in> set (calls (trace (main argv env)))" and "checked_failure c"
  shows "last (calls (trace (main argv env))) = c"
    and "exit_code (main argv env) = EXIT_FAILURE"
    and "ends_on_stderr (main argv env)"
proof -
  from assms(1) have "calls (trace (main argv env)) \<noteq> []"
    by auto
  then have "calls (trace (main argv env)) =
      butlast (calls (trace (main argv env))) @ [last (calls (trace (main argv env)))]"
    by simp
  with assms(1) have "c \<in> set (butlast (calls (trace (main argv env)))) \<or>
      c = last (calls (trace (main argv env)))"
    by (metis Un_iff empty_iff empty_set insert_iff list.simps(15) set_append)
  moreover have "c \<notin> set (butlast (calls (trace (main argv env))))"
    using butlast_calls_main [of argv env] assms(2) by blast
  ultimately show "last (calls (trace (main argv env))) = c"
    by simp
  show failed: "exit_code (main argv env) = EXIT_FAILURE"
  proof (cases rule: main_cases [of env argv])
    case (usb opts)
    from assms have "\<exists>c \<in> set (usb_calls env opts (identifier_bus argv env)
        (identifier_device argv env)). checked_failure c"
      unfolding usb(5) by (rule bexI [rotated])
    then show ?thesis
      unfolding usb(6) by (rule failure_in_usb_calls)
  qed (use assms(1) in simp_all)
  from assms(1) have "optind env + 1 = length argv"
    by (cases rule: main_cases [of env argv]) simp_all
  with failed show "ends_on_stderr (main argv env)"
    by (rule ends_on_stderr_main)
qed

text \<open>An identifier that does not parse: one message on standard error, no call.\<close>

lemma bad_identifier_stops:
  assumes "CHR ''h'' \<notin> fst ` set (getopt_long env)" and "optind env + 1 = length argv"
    and "\<not> fst (parse_device_identifier (- 1) (- 1) (argv ! optind env))"
  shows "main argv env =
    \<lparr>exit_code = EXIT_FAILURE,
     trace = [Stderr (''Unable to parse '' @ [CHR 0x60] @ argv ! optind env @ [CHR 0x27] @
                      newline)]\<rparr>"
proof -
  from assms(1) obtain opts where "option_loop (getopt_long env) no_options = Done opts"
    using option_loop_Help [of "getopt_long env" no_options]
    by (cases "option_loop (getopt_long env) no_options") auto
  with assms(2,3) show ?thesis
    by (simp add: main_def case_prod_beta)
qed

text \<open>No device at the address: a message on standard error after the enumeration.\<close>

lemma device_not_found_stops:
  assumes "CHR ''h'' \<notin> fst ` set (getopt_long env)" and "optind env + 1 = length argv"
    and "fst (parse_device_identifier (- 1) (- 1) (argv ! optind env))"
    and "0 \<le> fst (libusb_get_device_list env)"
    and "find_device (identifier_bus argv env) (identifier_device argv env) (enumerated env) =
      None"
  shows "calls (trace (main argv env)) =
      [Libusb_init (libusb_init env),
       Libusb_get_device_list (fst (libusb_get_device_list env))
         (snd (libusb_get_device_list env))]"
    and "exit_code (main argv env) = EXIT_FAILURE"
    and "ends_on_stderr (main argv env)"
proof -
  show calls: "calls (trace (main argv env)) =
      [Libusb_init (libusb_init env),
       Libusb_get_device_list (fst (libusb_get_device_list env))
         (snd (libusb_get_device_list env))]"
    using assms by (cases rule: main_cases [of env argv]) (simp_all add: usb_calls_def)
  show failed: "exit_code (main argv env) = EXIT_FAILURE"
    using assms by (cases rule: main_cases [of env argv]) (simp_all add: exit_code_main_usb)
  from failed assms(2) show "ends_on_stderr (main argv env)"
    by (rule ends_on_stderr_main)
qed

subsection \<open>The example runs, evaluated\<close>

lemma calls_example:
  "calls (trace (main argv_example env_example)) =
     [Libusb_init 0,
      Libusb_get_device_list 2
        [\<lparr>bus_number = 1, device_address = 1\<rparr>, \<lparr>bus_number = 1, device_address = 2\<rparr>],
      Ftdi_init 0,
      Ftdi_usb_open_dev \<lparr>bus_number = 1, device_address = 2\<rparr> 0,
      Libusb_get_device_descriptor 0,
      Libusb_get_string_descriptor_ascii iManufacturer 4,
      Libusb_get_string_descriptor_ascii iProduct 4,
      Libusb_get_string_descriptor_ascii iSerialNumber 3,
      Ftdi_eeprom_initdefaults ''ACME'' ''UART'' ''A01'' 0,
      Ftdi_eeprom_build 0,
      Ftdi_write_eeprom 0,
      Ftdi_deinit]"
  by code_simp

lemma calls_open_fails:
  "calls (trace (main argv_example env_open_fails)) =
     [Libusb_init 0,
      Libusb_get_device_list 2
        [\<lparr>bus_number = 1, device_address = 1\<rparr>, \<lparr>bus_number = 1, device_address = 2\<rparr>],
      Ftdi_init 0,
      Ftdi_usb_open_dev \<lparr>bus_number = 1, device_address = 2\<rparr> (- 4)]"
  by code_simp

lemma exit_code_open_fails: "exit_code (main argv_example env_open_fails) = EXIT_FAILURE"
  by code_simp

lemma calls_identifier:
  "calls (trace (main argv_identifier env_no_option)) =
     [Libusb_init 0,
      Libusb_get_device_list 2
        [\<lparr>bus_number = 1, device_address = 1\<rparr>, \<lparr>bus_number = 1, device_address = 2\<rparr>],
      Ftdi_init 0,
      Ftdi_usb_open_dev \<lparr>bus_number = 1, device_address = 2\<rparr> 0,
      Libusb_get_device_descriptor 0,
      Libusb_get_string_descriptor_ascii iManufacturer 4,
      Libusb_get_string_descriptor_ascii iProduct 4,
      Libusb_get_string_descriptor_ascii iSerialNumber 3,
      Ftdi_eeprom_initdefaults ''FTDI'' ''UART'' ''A01'' 0,
      Ftdi_eeprom_build 0,
      Ftdi_write_eeprom 0,
      Ftdi_deinit]"
  by code_simp

lemma unparsable_example:
  "\<not> fst (parse_device_identifier (- 1) (- 1) (argv_unparsable ! optind env_no_option))"
  by code_simp

lemma absent_example:
  "find_device (identifier_bus argv_absent env_no_option)
     (identifier_device argv_absent env_no_option) (enumerated env_no_option) = None"
  by code_simp

section \<open>Properties of the program\<close>

subsection \<open>Argument parsing\<close>

text \<open>
  C2. \<^verbatim>\<open>parse_device_identifier\<close> applied to \<^verbatim>\<open>"1:2"\<close> returns true and sets bus to 1
  and device to 2; applied to \<^verbatim>\<open>"1:2:3"\<close> it returns false; applied to \<^verbatim>\<open>"abc"\<close> it
  returns false. Whatever \<^verbatim>\<open>*bus\<close> and \<^verbatim>\<open>*device\<close> held before.
\<close>

theorem parse_device_identifier_examples:
  "parse_device_identifier bus device ''1:2'' = (True, 1, 2) \<and>
   fst (parse_device_identifier bus device ''1:2:3'') = False \<and>
   fst (parse_device_identifier bus device ''abc'') = False"
  by (simp add: parse_device_identifier_def strtol_defs)

text \<open>
  C8. \<^verbatim>\<open>parse_device_identifier\<close> does not require digits before the colon: for every
  identifier that is a colon followed by a number and nothing else, that is by a string
  that \<^verbatim>\<open>strtol\<close> converts to its end, it returns true with bus 0 and the number as
  device; every decimal numeral is such a number, and below \<open>2 ^ 31\<close> the device is its
  value (\<^verbatim>\<open>":5"\<close> gives bus 0 and device 5). Base 0 makes \<^verbatim>\<open>strtol\<close> accept a
  hexadecimal, an octal and a negative component: \<^verbatim>\<open>"0x1:2"\<close> is bus 1 and device 2,
  \<^verbatim>\<open>"010:2"\<close> is bus 8 and device 2, \<^verbatim>\<open>"-1:-2"\<close> is bus \<open>-1\<close> and device \<open>-2\<close>.
\<close>

theorem parse_device_identifier_lenient:
  "(snd (strtol number) = [] \<longrightarrow>
      parse_device_identifier bus device (CHR '':'' # number) =
        (True, 0, int_of_long (fst (strtol number)))) \<and>
   parse_device_identifier bus device (CHR '':'' # decimal n) =
     (True, 0, int_of_long (clamp_long (int n))) \<and>
   (n < 2 ^ 31 \<longrightarrow>
      parse_device_identifier bus device (CHR '':'' # decimal n) = (True, 0, int n)) \<and>
   parse_device_identifier bus device '':5'' = (True, 0, 5) \<and>
   parse_device_identifier bus device ''0x1:2'' = (True, 1, 2) \<and>
   parse_device_identifier bus device ''010:2'' = (True, 8, 2) \<and>
   parse_device_identifier bus device ''-1:-2'' = (True, - 1, - 2)"
proof -
  have general: "parse_device_identifier bus device (CHR '':'' # number) =
      (True, 0, int_of_long (fst (strtol number)))" if "snd (strtol number) = []" for number
    using that
    by (simp add: parse_device_identifier_def strtol_colon deref_def int_of_long_def
        case_prod_beta)
  have numeral: "parse_device_identifier bus device (CHR '':'' # decimal n) =
      (True, 0, int_of_long (clamp_long (int n)))"
    using general [of "decimal n"] by (simp add: strtol_decimal_end)
  have "parse_device_identifier bus device '':5'' = (True, 0, 5)"
    by (simp add: parse_device_identifier_def strtol_defs)
  moreover have "parse_device_identifier bus device ''0x1:2'' = (True, 1, 2)"
    by (simp add: parse_device_identifier_def strtol_defs)
  moreover have "parse_device_identifier bus device ''010:2'' = (True, 8, 2)"
    by (simp add: parse_device_identifier_def strtol_defs)
  moreover have "parse_device_identifier bus device ''-1:-2'' = (True, - 1, - 2)"
    by (simp add: parse_device_identifier_def strtol_defs)
  ultimately show ?thesis
    using general [of number] numeral by (simp add: int_of_long_clamp_long_nat)
qed

text \<open>
  The number \<^verbatim>\<open>0x1F\<close> after the colon: converted to its end, device 31. The numeral
  of 5 after the colon: device 5.
\<close>

theorem parse_device_identifier_lenient_witness:
  "snd (strtol ''0x1F'') = [] \<and>
   parse_device_identifier (- 1) (- 1) '':0x1F'' = (True, 0, 31) \<and>
   (5 :: nat) < 2 ^ 31 \<and>
   parse_device_identifier (- 1) (- 1) (CHR '':'' # decimal 5) = (True, 0, 5)"
proof -
  have number: "strtol ''0x1F'' = (31, [])"
    by (simp add: strtol_defs)
  then have end_reached: "snd (strtol ''0x1F'') = []"
    by simp
  have small: "(5 :: nat) < 2 ^ 31"
    by simp
  note lenient = parse_device_identifier_lenient [of "''0x1F''" "- 1" "- 1" 5]
  from lenient end_reached number
  have "parse_device_identifier (- 1) (- 1) '':0x1F'' = (True, 0, 31)"
    by (simp add: int_of_long_def)
  moreover from lenient small
  have "parse_device_identifier (- 1) (- 1) (CHR '':'' # decimal 5) = (True, 0, int 5)"
    by blast
  then have "parse_device_identifier (- 1) (- 1) (CHR '':'' # decimal 5) = (True, 0, 5)"
    by simp
  ultimately show ?thesis
    using end_reached small by simp
qed

text \<open>
  C9, amended. \<^verbatim>\<open>parse_device_identifier\<close> is not atomic on failure: for every identifier
  on which the first \<^verbatim>\<open>strtol\<close> stops at a colon (a decimal numeral followed by a colon,
  for one) and the second \<^verbatim>\<open>strtol\<close> stops at a character of the suffix, not at its
  end (as in \<^verbatim>\<open>"1:2:3"\<close>), it returns false but has already overwritten \<^verbatim>\<open>*bus\<close> with
  the first number; \<^verbatim>\<open>*device\<close> is left unchanged on every failing input. An empty
  suffix is outside this statement.
\<close>

theorem parse_device_identifier_not_atomic:
  "(snd (strtol identifier) = CHR '':'' # suffix \<and> deref (snd (strtol suffix)) \<noteq> CHR 0x00 \<longrightarrow>
      parse_device_identifier bus device identifier =
        (False, int_of_long (fst (strtol identifier)), device)) \<and>
   (deref (snd (strtol suffix)) \<noteq> CHR 0x00 \<longrightarrow>
      parse_device_identifier bus device (decimal n @ CHR '':'' # suffix) =
        (False, int_of_long (clamp_long (int n)), device)) \<and>
   (\<not> fst (parse_device_identifier bus device identifier) \<longrightarrow>
      snd (snd (parse_device_identifier bus device identifier)) = device)"
proof -
  have general: "parse_device_identifier bus device ident =
      (False, int_of_long (fst (strtol ident)), device)"
    if "snd (strtol ident) = CHR '':'' # suffix"
      and "deref (snd (strtol suffix)) \<noteq> CHR 0x00" for ident
    using that by (simp add: parse_device_identifier_def deref_def case_prod_beta Let_def)
  have "parse_device_identifier bus device (decimal n @ CHR '':'' # suffix) =
      (False, int_of_long (clamp_long (int n)), device)"
    if "deref (snd (strtol suffix)) \<noteq> CHR 0x00"
    using general [of "decimal n @ CHR '':'' # suffix"] that
    by (simp add: strtol_decimal_colon)
  moreover have "snd (snd (parse_device_identifier bus device identifier)) = device"
    if "\<not> fst (parse_device_identifier bus device identifier)"
    using that by (simp add: parse_device_identifier_def deref_def case_prod_beta Let_def
        split: if_splits)
  ultimately show ?thesis
    using general [of "identifier"] by simp
qed

text \<open>\<^verbatim>\<open>"1:2:3"\<close> with bus and device \<open>-1\<close> before: false, bus 1, device still \<open>-1\<close>.\<close>

theorem parse_device_identifier_not_atomic_witness:
  "snd (strtol ''1:2:3'') = CHR '':'' # ''2:3'' \<and> deref (snd (strtol ''2:3'')) \<noteq> CHR 0x00 \<and>
   parse_device_identifier (- 1) (- 1) ''1:2:3'' = (False, 1, - 1) \<and>
   parse_device_identifier (- 1) (- 1) (decimal 1 @ CHR '':'' # ''2:3'') = (False, 1, - 1) \<and>
   \<not> fst (parse_device_identifier (- 1) (- 1) ''1:2:3'') \<and>
   snd (snd (parse_device_identifier (- 1) (- 1) ''1:2:3'')) = - 1"
proof -
  have first: "strtol ''1:2:3'' = (1, CHR '':'' # ''2:3'')"
    by (simp add: strtol_defs)
  have second: "deref (snd (strtol ''2:3'')) \<noteq> CHR 0x00"
    by (simp add: strtol_defs)
  have one: "int_of_long (clamp_long (int 1)) = 1"
    by (simp add: int_of_long_def clamp_long_def LONG_MAX_def LONG_MIN_def)
  note not_atomic = parse_device_identifier_not_atomic [of "''1:2:3''" "''2:3''" "- 1" "- 1" 1]
  from not_atomic first second
  have whole: "parse_device_identifier (- 1) (- 1) ''1:2:3'' = (False, 1, - 1)"
    by (simp add: int_of_long_def)
  from not_atomic second one
  have numeral: "parse_device_identifier (- 1) (- 1) (decimal 1 @ CHR '':'' # ''2:3'') =
      (False, 1, - 1)"
    by simp
  from whole have failed: "\<not> fst (parse_device_identifier (- 1) (- 1) ''1:2:3'')"
    by simp
  with not_atomic have "snd (snd (parse_device_identifier (- 1) (- 1) ''1:2:3'')) = - 1"
    by simp
  with whole numeral failed first second show ?thesis
    by simp
qed

text \<open>
  C9 as it is written fails on \<^verbatim>\<open>"1:"\<close>: the suffix after the colon is empty, no number
  at all (\<^verbatim>\<open>strtol\<close> converts nothing in it), and the identifier is accepted with
  device 0.
\<close>

theorem empty_suffix_accepted:
  "strtol ''1:'' = (1, '':'') \<and> strtol [] = (0, []) \<and>
   parse_device_identifier (- 1) (- 1) ''1:'' = (True, 1, 0)"
  by (simp add: parse_device_identifier_def strtol_defs)

subsection \<open>Help and the number of arguments\<close>

text \<open>
  C10. For every invocation in which \<^verbatim>\<open>getopt_long\<close> finds \<^verbatim>\<open>-h\<close> or \<^verbatim>\<open>--help\<close> among
  the options (it returns \<open>h\<close>), the program prints the usage text to standard output,
  the nine lines of \<^verbatim>\<open>print_help\<close> with \<^verbatim>\<open>argv[0]\<close> in the first, and returns
  \<^verbatim>\<open>EXIT_SUCCESS\<close> at once: the program prints nothing else, whatever the positional
  arguments are, and makes no library call.
\<close>

theorem help_option:
  assumes "CHR ''h'' \<in> fst ` set (getopt_long env)"
  shows
    "main argv env =
       \<lparr>exit_code = EXIT_SUCCESS,
        trace =
          [Stdout (''USAGE: '' @ (case argv of [] \<Rightarrow> ''(null)'' | a # _ \<Rightarrow> a) @
                    '' [OPTIONS] bus:device'' @ newline),
           Stdout (''Use lsusb to find the bus and device numbers.'' @ newline),
           Stdout (''Options:'' @ newline),
           Stdout (''  -m, --manufacturer=MFG Set the manufacturer to the specified value'' @ newline),
           Stdout (''  -p, --product=PRODUCT  Set the product to the specified value'' @ newline),
           Stdout (''  -s, --serial=SERIAL    Set the serial to the specified value'' @ newline),
           Stdout (''  -v, --verbose          Verbose output'' @ newline),
           Stdout (''  -h, --help             Print this help screen and exit'' @ newline),
           Stdout (''Report bugs to <https://github.com/nemequ/ftdi-eeprom>'' @ newline)]\<rparr> \<and>
     calls (trace (main argv env)) = [] \<and>
     (\<forall>e \<in> set (trace (main argv env)). \<exists>text. e = Stdout text)"
proof -
  from assms have "option_loop (getopt_long env) no_options = Help"
    by (simp add: option_loop_Help)
  then have "main argv env = \<lparr>exit_code = EXIT_SUCCESS, trace = print_help argv\<rparr>"
    by (simp add: main_def)
  then show ?thesis
    by (simp add: print_help_def program_name_def)
qed

text \<open>\<^verbatim>\<open>ftdi-eeprom -h\<close>: the nine lines, with the name of the program in the first.\<close>

theorem help_option_witness:
  "CHR ''h'' \<in> fst ` set (getopt_long env_help) \<and>
   main argv_help env_help =
     \<lparr>exit_code = EXIT_SUCCESS,
      trace =
        [Stdout (''USAGE: ftdi-eeprom [OPTIONS] bus:device'' @ newline),
         Stdout (''Use lsusb to find the bus and device numbers.'' @ newline),
         Stdout (''Options:'' @ newline),
         Stdout (''  -m, --manufacturer=MFG Set the manufacturer to the specified value'' @ newline),
         Stdout (''  -p, --product=PRODUCT  Set the product to the specified value'' @ newline),
         Stdout (''  -s, --serial=SERIAL    Set the serial to the specified value'' @ newline),
         Stdout (''  -v, --verbose          Verbose output'' @ newline),
         Stdout (''  -h, --help             Print this help screen and exit'' @ newline),
         Stdout (''Report bugs to <https://github.com/nemequ/ftdi-eeprom>'' @ newline)]\<rparr> \<and>
   Stdout (''Options:'' @ newline) \<in> set (trace (main argv_help env_help))"
proof -
  have h: "CHR ''h'' \<in> fst ` set (getopt_long env_help)"
    by (simp add: env_help_def)
  from help_option [OF h, of argv_help] h show ?thesis
    by (simp add: argv_help_def)
qed

text \<open>
  C6, amended. For every invocation in which \<^verbatim>\<open>getopt_long\<close> never returns \<open>h\<close> and
  whose number of positional arguments (\<^verbatim>\<open>argc - optind\<close>) is not exactly one, the
  program prints the help text, the nine lines of \<^verbatim>\<open>print_help\<close>, to standard output,
  and exits with status 1 without a library call.
\<close>

theorem wrong_argument_count:
  assumes "CHR ''h'' \<notin> fst ` set (getopt_long env)"
    and "optind env + 1 \<noteq> length argv"
  shows
    "main argv env =
       \<lparr>exit_code = EXIT_FAILURE,
        trace =
          [Stdout (''USAGE: '' @ (case argv of [] \<Rightarrow> ''(null)'' | a # _ \<Rightarrow> a) @
                    '' [OPTIONS] bus:device'' @ newline),
           Stdout (''Use lsusb to find the bus and device numbers.'' @ newline),
           Stdout (''Options:'' @ newline),
           Stdout (''  -m, --manufacturer=MFG Set the manufacturer to the specified value'' @ newline),
           Stdout (''  -p, --product=PRODUCT  Set the product to the specified value'' @ newline),
           Stdout (''  -s, --serial=SERIAL    Set the serial to the specified value'' @ newline),
           Stdout (''  -v, --verbose          Verbose output'' @ newline),
           Stdout (''  -h, --help             Print this help screen and exit'' @ newline),
           Stdout (''Report bugs to <https://github.com/nemequ/ftdi-eeprom>'' @ newline)]\<rparr> \<and>
     calls (trace (main argv env)) = [] \<and>
     (\<forall>e \<in> set (trace (main argv env)). \<exists>text. e = Stdout text)"
proof -
  from assms(1) obtain opts where "option_loop (getopt_long env) no_options = Done opts"
    using option_loop_Help [of "getopt_long env" no_options]
    by (cases "option_loop (getopt_long env) no_options") auto
  with assms(2)
  have "main argv env = \<lparr>exit_code = EXIT_FAILURE, trace = print_help argv\<rparr>"
    by (simp add: main_def)
  then show ?thesis
    by (simp add: print_help_def program_name_def)
qed

text \<open>\<^verbatim>\<open>ftdi-eeprom 1:2 1:3\<close>: the nine lines and exit status 1.\<close>

theorem wrong_argument_count_witness:
  "CHR ''h'' \<notin> fst ` set (getopt_long env_no_option) \<and>
   optind env_no_option + 1 \<noteq> length argv_two_identifiers \<and>
   main argv_two_identifiers env_no_option =
     \<lparr>exit_code = EXIT_FAILURE,
      trace =
        [Stdout (''USAGE: ftdi-eeprom [OPTIONS] bus:device'' @ newline),
         Stdout (''Use lsusb to find the bus and device numbers.'' @ newline),
         Stdout (''Options:'' @ newline),
         Stdout (''  -m, --manufacturer=MFG Set the manufacturer to the specified value'' @ newline),
         Stdout (''  -p, --product=PRODUCT  Set the product to the specified value'' @ newline),
         Stdout (''  -s, --serial=SERIAL    Set the serial to the specified value'' @ newline),
         Stdout (''  -v, --verbose          Verbose output'' @ newline),
         Stdout (''  -h, --help             Print this help screen and exit'' @ newline),
         Stdout (''Report bugs to <https://github.com/nemequ/ftdi-eeprom>'' @ newline)]\<rparr> \<and>
   Stdout (''Options:'' @ newline) \<in> set (trace (main argv_two_identifiers env_no_option))"
proof -
  have h: "CHR ''h'' \<notin> fst ` set (getopt_long env_no_option)"
    by (simp add: env_no_option_def)
  have n: "optind env_no_option + 1 \<noteq> length argv_two_identifiers"
    by (simp add: env_no_option_def argv_two_identifiers_def)
  from wrong_argument_count [OF h n] h n show ?thesis
    by (simp add: argv_two_identifiers_def)
qed

text \<open>
  C6 as it is written fails on \<^verbatim>\<open>ftdi-eeprom --help 1:2 1:3\<close>: two positional
  arguments, and the exit status is 0.
\<close>

theorem help_with_two_identifiers:
  "optind env_help + 1 \<noteq> length argv_help_two_identifiers \<and>
   exit_code (main argv_help_two_identifiers env_help) = EXIT_SUCCESS"
  by code_simp

subsection \<open>The strings passed on\<close>

text \<open>
  C1. In every run, each of the three strings that \<^verbatim>\<open>ftdi_eeprom_initdefaults\<close>
  receives is the argument of the last \<^verbatim>\<open>-m\<close> (\<^verbatim>\<open>-p\<close>, \<^verbatim>\<open>-s\<close>) on the command line,
  verbatim, when there is one, and otherwise the string that
  \<^verbatim>\<open>libusb_get_string_descriptor_ascii\<close> read from the device for that field. So a
  field whose option the user omits is passed on as the device has it.
\<close>

theorem initdefaults_strings:
  assumes "Ftdi_eeprom_initdefaults m p s ires \<in> set (calls (trace (main argv env)))"
  shows
    "m = (case last_optarg (CHR ''m'') (getopt_long env) of
            None \<Rightarrow> snd (libusb_get_string_descriptor_ascii env iManufacturer)
          | Some optarg \<Rightarrow> optarg) \<and>
     p = (case last_optarg (CHR ''p'') (getopt_long env) of
            None \<Rightarrow> snd (libusb_get_string_descriptor_ascii env iProduct)
          | Some optarg \<Rightarrow> optarg) \<and>
     s = (case last_optarg (CHR ''s'') (getopt_long env) of
            None \<Rightarrow> snd (libusb_get_string_descriptor_ascii env iSerialNumber)
          | Some optarg \<Rightarrow> optarg) \<and>
     (CHR ''m'' \<notin> fst ` set (getopt_long env) \<longrightarrow>
        m = snd (libusb_get_string_descriptor_ascii env iManufacturer)) \<and>
     (CHR ''p'' \<notin> fst ` set (getopt_long env) \<longrightarrow>
        p = snd (libusb_get_string_descriptor_ascii env iProduct)) \<and>
     (CHR ''s'' \<notin> fst ` set (getopt_long env) \<longrightarrow>
        s = snd (libusb_get_string_descriptor_ascii env iSerialNumber))"
proof -
  from assms obtain opts bus device
    where loop: "option_loop (getopt_long env) no_options = Done opts"
      and call: "Ftdi_eeprom_initdefaults m p s ires \<in> set (usb_calls env opts bus device)"
    by (cases "option_loop (getopt_long env) no_options")
      (auto simp: calls_main split: if_splits)
  note strings = option_loop_strings [OF loop]
  from initdefaults_in_usb_calls [OF call] show ?thesis
    by (auto simp: chosen_def strings last_optarg_absent)
qed

text \<open>
  \<^verbatim>\<open>ftdi-eeprom -m ACME 1:2\<close>: ACME as given, UART and A01 as read from the device.
  \<^verbatim>\<open>ftdi-eeprom 1:2\<close>: the manufacturer too is the one read from the device, FTDI.
\<close>

theorem initdefaults_strings_witness:
  "Ftdi_eeprom_initdefaults ''ACME'' ''UART'' ''A01'' 0
     \<in> set (calls (trace (main argv_example env_example))) \<and>
   last_optarg (CHR ''m'') (getopt_long env_example) = Some ''ACME'' \<and>
   CHR ''p'' \<notin> fst ` set (getopt_long env_example) \<and>
   CHR ''s'' \<notin> fst ` set (getopt_long env_example) \<and>
   ''UART'' = snd (libusb_get_string_descriptor_ascii env_example iProduct) \<and>
   ''A01'' = snd (libusb_get_string_descriptor_ascii env_example iSerialNumber) \<and>
   Ftdi_eeprom_initdefaults ''FTDI'' ''UART'' ''A01'' 0
     \<in> set (calls (trace (main argv_identifier env_no_option))) \<and>
   CHR ''m'' \<notin> fst ` set (getopt_long env_no_option) \<and>
   ''FTDI'' = snd (libusb_get_string_descriptor_ascii env_no_option iManufacturer)"
proof -
  have call: "Ftdi_eeprom_initdefaults ''ACME'' ''UART'' ''A01'' 0
      \<in> set (calls (trace (main argv_example env_example)))"
    by (simp add: calls_example)
  have given: "last_optarg (CHR ''m'') (getopt_long env_example) = Some ''ACME''"
    by (simp add: env_example_def last_optarg_def)
  have omitted: "CHR ''p'' \<notin> fst ` set (getopt_long env_example)"
    "CHR ''s'' \<notin> fst ` set (getopt_long env_example)"
    by (simp_all add: env_example_def)
  have call': "Ftdi_eeprom_initdefaults ''FTDI'' ''UART'' ''A01'' 0
      \<in> set (calls (trace (main argv_identifier env_no_option)))"
    by (simp add: calls_identifier)
  have omitted': "CHR ''m'' \<notin> fst ` set (getopt_long env_no_option)"
    by (simp add: env_no_option_def)
  from initdefaults_strings [OF call] initdefaults_strings [OF call']
    call given omitted call' omitted'
  show ?thesis
    by blast
qed

subsection \<open>Exit code\<close>

text \<open>
  C3, amended. For every run in which \<^verbatim>\<open>getopt_long\<close> never returns \<open>h\<close>, the exit
  code is 0 or 1; it is 0 exactly when the sequence has come to \<^verbatim>\<open>ftdi_write_eeprom\<close>
  and that call has succeeded; and it is 1 on each of these failures: a wrong number of
  positional arguments, an identifier that does not parse, no entry of the enumerated
  list with the bus and address asked for, and any call whose returned value the
  program tests and rejects (the enumeration, \<^verbatim>\<open>ftdi_init\<close>, \<^verbatim>\<open>ftdi_usb_open_dev\<close>, the
  descriptor reads, \<^verbatim>\<open>ftdi_eeprom_initdefaults\<close>, \<^verbatim>\<open>ftdi_eeprom_build\<close>,
  \<^verbatim>\<open>ftdi_write_eeprom\<close>).
\<close>

theorem exit_code_without_help:
  assumes "CHR ''h'' \<notin> fst ` set (getopt_long env)"
  shows
    "(exit_code (main argv env) = EXIT_SUCCESS \<or> exit_code (main argv env) = EXIT_FAILURE) \<and>
     (exit_code (main argv env) = EXIT_SUCCESS \<longleftrightarrow>
        (\<exists>ires\<ge>0. Ftdi_write_eeprom ires \<in> set (calls (trace (main argv env))))) \<and>
     (optind env + 1 \<noteq> length argv \<longrightarrow> exit_code (main argv env) = EXIT_FAILURE) \<and>
     (\<not> fst (parse_device_identifier (- 1) (- 1) (argv ! optind env)) \<longrightarrow>
        exit_code (main argv env) = EXIT_FAILURE) \<and>
     (find_device (identifier_bus argv env) (identifier_device argv env) (enumerated env) = None \<longrightarrow>
        exit_code (main argv env) = EXIT_FAILURE) \<and>
     ((\<exists>c \<in> set (calls (trace (main argv env))). checked_failure c) \<longrightarrow>
        exit_code (main argv env) = EXIT_FAILURE)"
proof (cases rule: main_cases [of env argv])
  case help_exit
  with assms show ?thesis by simp
next
  case bad_count
  then show ?thesis by simp
next
  case bad_identifier
  then show ?thesis by simp
next
  case (usb opts)
  let ?bus = "identifier_bus argv env" and ?device = "identifier_device argv env"
  note facts =
    exit_code_main_usb_cases [of env opts ?bus ?device]
    write_in_usb_calls [of env opts ?bus ?device]
    not_found_main_usb [of ?bus ?device env opts]
    failure_in_usb_calls [of env opts ?bus ?device]
  from usb(2,3) show ?thesis
    unfolding usb(5,6) using facts by auto
qed

text \<open>
  \<^verbatim>\<open>ftdi-eeprom -m ACME 1:2\<close>: exit code 0 when every call succeeds, and 1 when
  \<^verbatim>\<open>ftdi_usb_open_dev\<close> returns \<open>-4\<close>. Exit code 1 also for \<^verbatim>\<open>ftdi-eeprom 1:2 1:3\<close>,
  \<^verbatim>\<open>ftdi-eeprom abc\<close> and \<^verbatim>\<open>ftdi-eeprom 1:3\<close>.
\<close>

theorem exit_code_without_help_witness:
  "CHR ''h'' \<notin> fst ` set (getopt_long env_example) \<and>
   Ftdi_write_eeprom 0 \<in> set (calls (trace (main argv_example env_example))) \<and>
   exit_code (main argv_example env_example) = EXIT_SUCCESS \<and>
   CHR ''h'' \<notin> fst ` set (getopt_long env_open_fails) \<and>
   Ftdi_usb_open_dev \<lparr>bus_number = 1, device_address = 2\<rparr> (- 4)
     \<in> set (calls (trace (main argv_example env_open_fails))) \<and>
   checked_failure (Ftdi_usb_open_dev \<lparr>bus_number = 1, device_address = 2\<rparr> (- 4)) \<and>
   exit_code (main argv_example env_open_fails) = EXIT_FAILURE \<and>
   CHR ''h'' \<notin> fst ` set (getopt_long env_no_option) \<and>
   optind env_no_option + 1 \<noteq> length argv_two_identifiers \<and>
   exit_code (main argv_two_identifiers env_no_option) = EXIT_FAILURE \<and>
   \<not> fst (parse_device_identifier (- 1) (- 1) (argv_unparsable ! optind env_no_option)) \<and>
   exit_code (main argv_unparsable env_no_option) = EXIT_FAILURE \<and>
   find_device (identifier_bus argv_absent env_no_option)
     (identifier_device argv_absent env_no_option) (enumerated env_no_option) = None \<and>
   exit_code (main argv_absent env_no_option) = EXIT_FAILURE"
proof -
  have h: "CHR ''h'' \<notin> fst ` set (getopt_long env_example)"
    "CHR ''h'' \<notin> fst ` set (getopt_long env_open_fails)"
    by (simp_all add: env_example_def env_open_fails_def)
  have h': "CHR ''h'' \<notin> fst ` set (getopt_long env_no_option)"
    by (simp add: env_no_option_def)
  have count: "optind env_no_option + 1 \<noteq> length argv_two_identifiers"
    by (simp add: env_no_option_def argv_two_identifiers_def)
  from exit_code_without_help [OF h', of argv_two_identifiers] count
  have two: "exit_code (main argv_two_identifiers env_no_option) = EXIT_FAILURE"
    by simp
  from exit_code_without_help [OF h', of argv_unparsable] unparsable_example
  have unparsable: "exit_code (main argv_unparsable env_no_option) = EXIT_FAILURE"
    by simp
  from exit_code_without_help [OF h', of argv_absent] absent_example
  have absent: "exit_code (main argv_absent env_no_option) = EXIT_FAILURE"
    by simp
  have written: "Ftdi_write_eeprom 0 \<in> set (calls (trace (main argv_example env_example)))"
    by (simp add: calls_example)
  have opened: "Ftdi_usb_open_dev \<lparr>bus_number = 1, device_address = 2\<rparr> (- 4)
      \<in> set (calls (trace (main argv_example env_open_fails)))"
    by (simp add: calls_open_fails)
  have rejected: "checked_failure (Ftdi_usb_open_dev \<lparr>bus_number = 1, device_address = 2\<rparr> (- 4))"
    by simp
  from exit_code_without_help [OF h(1), of argv_example] written
  have "exit_code (main argv_example env_example) = EXIT_SUCCESS"
    by blast
  moreover from exit_code_without_help [OF h(2), of argv_example] opened rejected
  have "exit_code (main argv_example env_open_fails) = EXIT_FAILURE"
    by blast
  ultimately show ?thesis
    using h h' written opened rejected count two unparsable_example unparsable
      absent_example absent
    by simp
qed

text \<open>
  C3 as it is written fails on \<^verbatim>\<open>ftdi-eeprom -h\<close>: the positional argument is
  missing, and the exit code is 0.
\<close>

theorem help_without_identifier:
  "optind env_help + 1 \<noteq> length argv_help \<and>
   exit_code (main argv_help env_help) = EXIT_SUCCESS"
  by code_simp

subsection \<open>Order of the calls\<close>



subsection \<open>Closing the handle\<close>

text \<open>
  C7. The handle is not closed on every exit path: \<^verbatim>\<open>ftdi_deinit\<close> is called in a run
  exactly when \<^verbatim>\<open>ftdi_write_eeprom\<close> has been called and has succeeded, which is the
  fully successful path; so every run that exits with failure after \<^verbatim>\<open>ftdi_init\<close> has
  succeeded (the open, a descriptor read, \<^verbatim>\<open>ftdi_eeprom_initdefaults\<close>,
  \<^verbatim>\<open>ftdi_eeprom_build\<close> or \<^verbatim>\<open>ftdi_write_eeprom\<close> has failed) returns without calling
  \<^verbatim>\<open>ftdi_deinit\<close>.
\<close>

theorem ftdi_deinit_only_on_success:
  "(Ftdi_deinit \<in> set (calls (trace (main argv env))) \<longleftrightarrow>
      (\<exists>ires\<ge>0. Ftdi_write_eeprom ires \<in> set (calls (trace (main argv env))))) \<and>
   (Ftdi_init 0 \<in> set (calls (trace (main argv env))) \<and>
    exit_code (main argv env) = EXIT_FAILURE \<longrightarrow>
      Ftdi_deinit \<notin> set (calls (trace (main argv env))))"
proof (cases rule: main_cases [of env argv])
  case help_exit
  then show ?thesis by simp
next
  case bad_count
  then show ?thesis by simp
next
  case bad_identifier
  then show ?thesis by simp
next
  case (usb opts)
  show ?thesis
    unfolding usb(5,6) by (simp add: deinit_in_usb_calls write_in_usb_calls)
qed

text \<open>
  \<^verbatim>\<open>ftdi-eeprom -m ACME 1:2\<close> when the open fails: \<^verbatim>\<open>ftdi_init\<close> has succeeded, the
  exit code is 1 and \<^verbatim>\<open>ftdi_deinit\<close> has not been called.
\<close>

theorem ftdi_deinit_only_on_success_witness:
  "Ftdi_init 0 \<in> set (calls (trace (main argv_example env_open_fails))) \<and>
   exit_code (main argv_example env_open_fails) = EXIT_FAILURE \<and>
   Ftdi_deinit \<notin> set (calls (trace (main argv_example env_open_fails)))"
proof -
  have init: "Ftdi_init 0 \<in> set (calls (trace (main argv_example env_open_fails)))"
    by (simp add: calls_open_fails)
  note failed = exit_code_open_fails
  from ftdi_deinit_only_on_success [of argv_example env_open_fails] init failed
  show ?thesis
    by blast
qed

subsection \<open>The value of \<^verbatim>\<open>libusb_init\<close>\<close>

text \<open>
  C4 says that on every failure (an identifier that does not parse, no device at the
  address, a failing library call) the program prints a diagnostic on standard error
  and returns failure at once, with no retry and no further library call. That holds
  of every failure the program tests for (\<open>checked_failure_stops\<close>,
  \<open>bad_identifier_stops\<close>, \<open>device_not_found_stops\<close> above), and not of
  \<^verbatim>\<open>libusb_init\<close>, whose value line 111 drops: when \<^verbatim>\<open>libusb_init\<close> returns \<open>-99\<close>,
  \<^verbatim>\<open>ftdi-eeprom -m ACME 1:2\<close> prints nothing about it and goes on to call
  \<^verbatim>\<open>libusb_get_device_list\<close>; the message it ends with is the one for that second
  call.
\<close>

theorem libusb_init_failure_ignored:
  "trace (main argv_example env_libusb_init_fails) =
     [Call (Libusb_init (- 99)),
      Call (Libusb_get_device_list (- 99) []),
      Stderr (''ERROR: Unable to list USB devices [-99]: Other error'' @ newline)] \<and>
   exit_code (main argv_example env_libusb_init_fails) = EXIT_FAILURE"
  by code_simp

end
